theory Spec2Isabelle
  imports Complex_Main
begin

section \<open>Common: axes and three-component vectors\<close>

text \<open>
  The template parameter \<open>axis\<close> of \<open>CylinderOnAxis<axis>\<close> ranges over the three
  constants \<open>xaxis\<close>, \<open>yaxis\<close>, \<open>zaxis\<close> (indices 0, 1, 2 of a vector). The class is
  only instantiated at these three values (see its static constructor functions).
\<close>

datatype axis = xaxis | yaxis | zaxis

text \<open>The indices 0, 1, 2 in the order in which a loop \<open>for(i = 0; i < 3; i++)\<close> visits them.\<close>

definition axes :: "axis list" where
  "axes = [xaxis, yaxis, zaxis]"

text \<open>
  \<open>Coordinate\<close> and \<open>Direction\<close> are vectors of three \<open>double\<close>s, indexed by axis.
  A \<open>double\<close> is idealised as a real number: rounding, infinities and NaN are not
  modelled. The arithmetic operators on vectors work component by component.
\<close>

type_synonym Coordinate = "axis \<Rightarrow> real"
type_synonym Direction = "axis \<Rightarrow> real"

definition vplus :: "Coordinate \<Rightarrow> Coordinate \<Rightarrow> Coordinate" where
  "vplus u v = (\<lambda>i. u i + v i)"

definition vminus :: "Coordinate \<Rightarrow> Coordinate \<Rightarrow> Coordinate" where
  "vminus u v = (\<lambda>i. u i - v i)"

definition vscale :: "real \<Rightarrow> Coordinate \<Rightarrow> Coordinate" where
  "vscale t v = (\<lambda>i. t * v i)"

definition vdiv :: "Coordinate \<Rightarrow> real \<Rightarrow> Coordinate" where
  "vdiv v r = (\<lambda>i. v i / r)"

text \<open>Euclidean length of a vector, over all three components.\<close>

definition vnorm :: "Coordinate \<Rightarrow> real" where
  "vnorm v = sqrt (v xaxis * v xaxis + v yaxis * v yaxis + v zaxis * v zaxis)"

section \<open>SurfaceUtils\<close>

text \<open>
  Modelled from the spec: \<open>dotProduct<axis>\<close> is declared in SurfaceUtils.hpp, which is
  not among the sources. The spec gives the cylinder-on-axis function as
  \<open>\<Sigma>_{i\<noteq>axis}(p_i - c_i)\<^sup>2 - r\<^sup>2\<close> and the source computes it as
  \<open>dotProduct<axis>(trpos, trpos) - radius * radius\<close>, so \<open>dotProduct<axis>(u, v)\<close> is the
  sum of \<open>u_i * v_i\<close> over the two components off the axis.
\<close>

definition dotProduct :: "axis \<Rightarrow> Coordinate \<Rightarrow> Coordinate \<Rightarrow> real" where
  "dotProduct ax u v = sum_list (map (\<lambda>i. u i * v i) (filter (\<lambda>i. i \<noteq> ax) axes))"

section \<open>CylinderOnAxis\<close>

datatype surface_error = BadSurfaceCreation string string

text \<open>
  The fields of the class with those of its base \<open>Surface\<close> that the constructors set:
  the user id and the flags. The type of the flags (\<open>Surface::SurfaceInfo\<close>) is declared
  outside the sources and stays a type parameter.
\<close>

record 'f CylinderOnAxis =
  user_id :: string
  flags :: 'f
  radius :: real
  point :: Coordinate

text \<open>
  The constructor's loop \<open>for(size_t i = 0 ; i < 3 ; i++) if(i != axis) {point[i] =
  coeffs[k + 1]; k++;}\<close>, with the loop state \<open>(point, k)\<close>.
\<close>

fun fill_point :: "axis \<Rightarrow> real list \<Rightarrow> axis list \<Rightarrow> Coordinate \<times> nat \<Rightarrow> Coordinate \<times> nat" where
  "fill_point ax coeffs [] (pt, k) = (pt, k)"
| "fill_point ax coeffs (i # is) (pt, k) =
     (if i \<noteq> ax then fill_point ax coeffs is (pt(i := coeffs ! (k + 1)), k + 1)
      else fill_point ax coeffs is (pt, k))"

text \<open>
  The constructor from a coefficient vector. The member \<open>point\<close> is not initialised
  before the body runs; the body assigns all three components, so the model starts from
  the zero vector.
\<close>

definition CylinderOnAxis_ctor ::
  "axis \<Rightarrow> string \<Rightarrow> real list \<Rightarrow> 'f \<Rightarrow> surface_error + 'f CylinderOnAxis" where
  "CylinderOnAxis_ctor ax surid coeffs flgs =
     (if length coeffs = 3 then
        Inr \<lparr> user_id = surid, flags = flgs, radius = coeffs ! 0,
              point = fst (fill_point ax coeffs axes ((\<lambda>_. 0)(ax := 0), 0)) \<rparr>
      else Inl (BadSurfaceCreation surid ''Bad number of coefficients''))"

text \<open>\<open>normal\<close> writes its result into the out-parameter \<open>vnormal\<close>; the model returns it.\<close>

definition normal :: "axis \<Rightarrow> 'f CylinderOnAxis \<Rightarrow> Coordinate \<Rightarrow> Direction" where
  "normal ax cyl position =
     (let vnormal = vminus position (point cyl);
          vnormal = vnormal(ax := 0)
      in vdiv vnormal (radius cyl))"

text \<open>
  The member \<open>function\<close>; the name is a keyword of Isabelle, so the constant is
  \<open>surface_function\<close>.
\<close>

definition surface_function :: "axis \<Rightarrow> 'f CylinderOnAxis \<Rightarrow> Coordinate \<Rightarrow> real" where
  "surface_function ax cyl position =
     (let trpos = vminus position (point cyl)
      in dotProduct ax trpos trpos - radius cyl * radius cyl)"

text \<open>The three "quadratic" coefficients that \<open>intersect\<close> computes, in the order a, k, c.\<close>

definition intersect_coeffs ::
  "axis \<Rightarrow> 'f CylinderOnAxis \<Rightarrow> Coordinate \<Rightarrow> Direction \<Rightarrow> real \<times> real \<times> real" where
  "intersect_coeffs ax cyl position dir =
     (let a = 1 - dir ax * dir ax;
          trpos = vminus position (point cyl);
          k = dotProduct ax dir trpos;
          c = dotProduct ax trpos trpos - radius cyl * radius cyl
      in (a, k, c))"

text \<open>
  \<open>quadraticIntersect\<close> is declared in SurfaceUtils.hpp, outside the sources, and is a
  parameter here. It returns the distance when there is an intersection.
\<close>

definition intersect ::
  "(real \<Rightarrow> real \<Rightarrow> real \<Rightarrow> bool \<Rightarrow> real option) \<Rightarrow>
   axis \<Rightarrow> 'f CylinderOnAxis \<Rightarrow> Coordinate \<Rightarrow> Direction \<Rightarrow> bool \<Rightarrow> real option" where
  "intersect quadraticIntersect ax cyl position dir sense =
     (case intersect_coeffs ax cyl position dir of
        (a, k, c) \<Rightarrow> quadraticIntersect a k c sense)"

definition transformate :: "axis \<Rightarrow> 'f CylinderOnAxis \<Rightarrow> Direction \<Rightarrow> 'f CylinderOnAxis" where
  "transformate ax cyl translation =
     (let new_point = vplus (point cyl) translation
      in \<lparr> user_id = user_id cyl, flags = flags cyl, radius = radius cyl, point = new_point \<rparr>)"

section \<open>ACE tables: words, cursors and the JXS array\<close>

text \<open>
  XSS is a vector of \<open>double\<close>s (idealised as reals, as above); NXS and JXS are arrays of
  \<open>int\<close>, modelled as lists of integers. An \<open>int\<close> has 32 bits: the conversions into
  \<open>int\<close> are written out, the additions on JXS entries are exact (an overflowing
  signed addition is undefined in C++).
\<close>

text \<open>
  Modelled from the spec: the constants \<open>nxs_size\<close> and \<open>jxs_size\<close> are declared outside
  the sources; by the spec NXS has 16 integers and JXS has 32.
\<close>

definition nxs_size :: nat where
  "nxs_size = 16"

definition jxs_size :: nat where
  "jxs_size = 32"

text \<open>
  The conversion of a \<open>size_t\<close> to \<open>int\<close> (as in \<open>int length = energy.size()\<close>): the
  value modulo \<open>2^32\<close>, read in two's complement.
\<close>

definition int_of_size :: "nat \<Rightarrow> int" where
  "int_of_size n = (let m = int n mod 2 ^ 32 in if m < 2 ^ 31 then m else m - 2 ^ 32)"

text \<open>
  The conversion of a \<open>double\<close> to \<open>int\<close>: truncation towards zero. It is undefined when
  the truncated value is not an \<open>int\<close>; the model returns \<open>None\<close> there.
\<close>

definition int_of_double :: "real \<Rightarrow> int option" where
  "int_of_double x =
     (let i = (if 0 \<le> x then \<lfloor>x\<rfloor> else \<lceil>x\<rceil>)
      in if - (2 ^ 31) \<le> i \<and> i < 2 ^ 31 then Some i else None)"

text \<open>
  \<open>getXSS\<close>, \<open>putXSS\<close> and \<open>setBegin\<close> are members of the base class \<open>ACEBlock\<close>, which
  is not among the sources. By the spec a read cursor is positioned in XSS, and a block's
  constructor "consumes a schema-defined number of words from the cursor and parallel
  arrays of length read from a preceding count word", while \<open>dump\<close> "appends its words".
  The cursor is the index of the next word in XSS.
\<close>

text \<open>
  Modelled from the spec: \<open>getXSS(int&)\<close> of the absent \<open>ACEBlock\<close> reads the count word
  under the cursor, converts it to \<open>int\<close> and moves the cursor by one word. A read
  outside XSS has no defined result and is \<open>None\<close>.
\<close>

definition getXSS_int :: "real list \<Rightarrow> nat \<Rightarrow> (int \<times> nat) option" where
  "getXSS_int xss it =
     (if it < length xss then
        (case int_of_double (xss ! it) of
           None \<Rightarrow> None
         | Some n \<Rightarrow> Some (n, it + 1))
      else None)"

text \<open>
  Modelled from the spec: \<open>getXSS(vector<double>&, int)\<close> of the absent \<open>ACEBlock\<close> reads
  an array of \<open>n\<close> words from the cursor on and moves the cursor behind them. A
  negative length and a read outside XSS have no defined result and are \<open>None\<close>.
\<close>

definition getXSS_vec :: "real list \<Rightarrow> nat \<Rightarrow> int \<Rightarrow> (real list \<times> nat) option" where
  "getXSS_vec xss it n =
     (if 0 \<le> n \<and> it + nat n \<le> length xss
      then Some (take (nat n) (drop it xss), it + nat n)
      else None)"

text \<open>
  Modelled from the spec: \<open>putXSS(int, ostream&)\<close> of the absent \<open>ACEBlock\<close> appends one
  word, the value of the \<open>int\<close>, to the stream of words.
\<close>

definition putXSS_int :: "int \<Rightarrow> real list \<Rightarrow> real list" where
  "putXSS_int v xss = xss @ [of_int v]"

text \<open>
  Modelled from the spec: \<open>putXSS(vector<double>, ostream&)\<close> of the absent \<open>ACEBlock\<close>
  appends the words of the array, in order, to the stream of words.
\<close>

definition putXSS_vec :: "real list \<Rightarrow> real list \<Rightarrow> real list" where
  "putXSS_vec vs xss = xss @ vs"

text \<open>
  Modelled from the spec: \<open>shiftJXSArray\<close> is declared in AceUtils.hpp, which is not
  among the sources. By the spec, \<open>shiftJXSArray(JXS_old, JXS_new, slot, block_size)\<close>
  "adds the block's size to every \<open>JXS_new[j]\<close> whose corresponding
  \<open>JXS_old[j] > JXS_old[slot]\<close>". It is a loop over the \<open>jxs_size\<close> entries.
\<close>

fun shift_loop :: "int list \<Rightarrow> nat \<Rightarrow> int \<Rightarrow> nat list \<Rightarrow> int list \<Rightarrow> int list" where
  "shift_loop jxs_old slot block_size [] jxs_new = jxs_new"
| "shift_loop jxs_old slot block_size (j # js) jxs_new =
     shift_loop jxs_old slot block_size js
       (if jxs_old ! j > jxs_old ! slot then jxs_new[j := jxs_new ! j + block_size] else jxs_new)"

text \<open>
  Modelled from the spec: \<open>shiftJXSArray\<close> of the absent AceUtils.hpp runs the loop above
  over all indices of the JXS array.
\<close>

definition shiftJXSArray :: "int list \<Rightarrow> int list \<Rightarrow> nat \<Rightarrow> int \<Rightarrow> int list" where
  "shiftJXSArray jxs_old jxs_new slot block_size =
     shift_loop jxs_old slot block_size [0..<jxs_size] jxs_new"

section \<open>ITIEBlock\<close>

record ITIEBlock =
  energy :: "real list"
  sigma_in :: "real list"

text \<open>
  The constructor. \<open>ITIE\<close> is the constant \<open>SabTable::ITIE\<close> (declared in SabTable.hpp,
  outside the sources): the slot of the block in JXS. \<open>setBegin\<close> puts the cursor at
  \<open>xss.begin() + (jxs[ITIE] - 1)\<close>; a slot outside the array and a cursor before the
  beginning of XSS have no defined result.
\<close>

definition ITIEBlock_ctor :: "nat \<Rightarrow> int list \<Rightarrow> int list \<Rightarrow> real list \<Rightarrow> ITIEBlock option" where
  "ITIEBlock_ctor ITIE nxs jxs xss =
     (if ITIE < length jxs \<and> 0 \<le> jxs ! ITIE - 1 then
        (case getXSS_int xss (nat (jxs ! ITIE - 1)) of
           None \<Rightarrow> None
         | Some (table_length, it1) \<Rightarrow>
             (case getXSS_vec xss it1 table_length of
                None \<Rightarrow> None
              | Some (en, it2) \<Rightarrow>
                  (case getXSS_vec xss it2 table_length of
                     None \<Rightarrow> None
                   | Some (sg, it3) \<Rightarrow> Some \<lparr> energy = en, sigma_in = sg \<rparr>)))
      else None)"

text \<open>\<open>dump\<close> appends to the output stream \<open>xss\<close>, here the list of the words written so far.\<close>

definition dump :: "ITIEBlock \<Rightarrow> real list \<Rightarrow> real list" where
  "dump b xss =
     (let len = int_of_size (length (energy b));
          xss = putXSS_int len xss;
          xss = putXSS_vec (energy b) xss
      in putXSS_vec (sigma_in b) xss)"

definition getSize :: "ITIEBlock \<Rightarrow> int" where
  "getSize b = int_of_size (length (energy b) * 2 + 1)"

text \<open>\<open>updatePointers\<close> writes \<open>jxs_new\<close> only; the model returns the new array.\<close>

definition updatePointers :: "nat \<Rightarrow> ITIEBlock \<Rightarrow> int list \<Rightarrow> int list \<Rightarrow> int list \<Rightarrow> int list" where
  "updatePointers ITIE b nxs jxs_old jxs_new = shiftJXSArray jxs_old jxs_new ITIE (getSize b)"

text \<open>
  What the constructor establishes for a block read from a table whose XSS length is an
  \<open>int\<close> (it is \<open>NXS[0]\<close>): both arrays have the length read from the count word, and the
  \<open>2L + 1\<close> words of the block fit in the table.
\<close>

definition block_wf :: "ITIEBlock \<Rightarrow> bool" where
  "block_wf b = (length (sigma_in b) = length (energy b) \<and> 2 * length (energy b) + 1 < 2 ^ 31)"

section \<open>McEnvironment\<close>

datatype general_error = GeneralError string

text \<open>
  The spec calls the failure of a set-up without a registered factory \<open>MissingFactory\<close>;
  the source throws a \<open>GeneralError\<close> with this message.
\<close>

definition MissingFactory :: "string \<Rightarrow> general_error" where
  "MissingFactory mname = GeneralError (''Cannot create module *'' @ mname @ ''* (no factory is registered) '')"

text \<open>
  An \<open>McObject\<close> is held by pointer (\<open>McObject*\<close>): the maps and vectors of the
  environment hold addresses, and the objects live in a heap. Of an object, the module
  name (\<open>getModuleName()\<close>) and the environment set by \<open>setEnvironment\<close> matter here.
  \<open>McObject\<close>, \<open>McModule\<close> and \<open>ModuleFactory\<close> are declared in McModule.hpp, outside
  the sources: a module is a value of a type parameter, and a factory is its \<open>create\<close>
  function, which reads the definitions it is given and returns a module or throws.
\<close>

record McObject =
  getModuleName :: string
  environment :: "nat option"

type_synonym heap = "nat \<Rightarrow> McObject"

type_synonym 'm ModuleFactory = "nat list \<Rightarrow> heap \<Rightarrow> general_error + 'm"

record 'm McEnvironment =
  factory_map :: "string \<rightharpoonup> 'm ModuleFactory"
  module_map :: "string \<rightharpoonup> 'm"
  object_map :: "string \<rightharpoonup> nat list"

text \<open>The state of the program: the environment (at address \<open>this\<close>) and the objects.\<close>

record 'm program_state =
  this :: nat
  mc_env :: "'m McEnvironment"
  objects :: heap

definition setEnvironment :: "nat \<Rightarrow> nat \<Rightarrow> 'm program_state \<Rightarrow> 'm program_state" where
  "setEnvironment obj e s = s\<lparr> objects := (objects s)(obj := (objects s obj)\<lparr> environment := Some e \<rparr>) \<rparr>"

text \<open>\<open>setupModule<Module>\<close>, with \<open>Module::name()\<close> (the local \<open>module\<close> of the source) as the parameter \<open>mname\<close>.\<close>

definition setupModule :: "string \<Rightarrow> 'm program_state \<Rightarrow> general_error + 'm program_state" where
  "setupModule mname s =
     (case factory_map (mc_env s) mname of
        Some factory \<Rightarrow>
          (case object_map (mc_env s) mname of
             None \<Rightarrow> Inr s
           | Some definitions \<Rightarrow>
               (case factory definitions (objects s) of
                  Inl e \<Rightarrow> Inl e
                | Inr md \<Rightarrow>
                    Inr (s\<lparr> mc_env := (mc_env s)\<lparr> module_map := (module_map (mc_env s))(mname \<mapsto> md) \<rparr> \<rparr>)))
      | None \<Rightarrow> Inl (MissingFactory mname))"

text \<open>
  The loop of \<open>createModule\<close> over \<open>user_definitions\<close>, with the vector \<open>definitions\<close>
  and the state as the loop state.
\<close>

fun collect_definitions ::
  "string \<Rightarrow> nat list \<Rightarrow> nat list \<times> 'm program_state \<Rightarrow> nat list \<times> 'm program_state" where
  "collect_definitions mname [] (definitions, s) = (definitions, s)"
| "collect_definitions mname (obj # rest) (definitions, s) =
     (if getModuleName (objects s obj) = mname
      then collect_definitions mname rest (definitions @ [obj], setEnvironment obj (this s) s)
      else collect_definitions mname rest (definitions, s))"

text \<open>
  \<open>createModule<Module>\<close>. The result of \<open>dynamic_cast<Module*>\<close> is the module or a null
  pointer; which one depends on the class of the module, so the cast is a parameter.
  An exception leaves the state as it was when it was thrown.
\<close>

definition createModule ::
  "string \<Rightarrow> ('m \<Rightarrow> 'm option) \<Rightarrow> nat list \<Rightarrow> 'm program_state \<Rightarrow>
   (general_error + 'm option) \<times> 'm program_state" where
  "createModule mname dynamic_cast user_definitions s =
     (case factory_map (mc_env s) mname of
        Some factory \<Rightarrow>
          (case collect_definitions mname user_definitions ([], s) of
             (definitions, s') \<Rightarrow>
               if length definitions = 0 then
                 (Inl (GeneralError (''Cannot create module *'' @ mname @ ''*. '' @
                    ''The objects supplied by the user does not contain information about that module'')), s')
               else
                 (case factory definitions (objects s') of
                    Inl e \<Rightarrow> (Inl e, s')
                  | Inr md \<Rightarrow> (Inr (dynamic_cast md), s')))
      | None \<Rightarrow> (Inl (MissingFactory mname), s))"

section \<open>Concrete inputs\<close>

text \<open>
  Scenario 2 of the spec: the cylinder on the z axis of radius 1 through the origin, and
  the ray from \<open>(2, 0, 0)\<close> in direction \<open>(-1, 0, 0)\<close>.
\<close>

definition unit_cylinder :: "unit CylinderOnAxis" where
  "unit_cylinder = \<lparr> user_id = ''1'', flags = (), radius = 1, point = (\<lambda>_. 0) \<rparr>"

definition ray_origin :: Coordinate where
  "ray_origin = (\<lambda>_. 0)(xaxis := 2)"

definition ray_direction :: Direction where
  "ray_direction = (\<lambda>_. 0)(xaxis := - 1)"

text \<open>An ITIE block of two energies, and a JXS array with the block at the first word.\<close>

definition two_point_block :: ITIEBlock where
  "two_point_block = \<lparr> energy = [1, 2], sigma_in = [3, 4] \<rparr>"

definition sample_jxs :: "int list" where
  "sample_jxs = [1, 6] @ replicate 30 0"

text \<open>
  An environment with factories for two modules and staged objects for one of them. A
  module is represented by the number of definitions it was created from.
\<close>

definition counting_factory :: "nat ModuleFactory" where
  "counting_factory definitions h = Inr (length definitions)"

definition sample_state :: "nat program_state" where
  "sample_state =
     \<lparr> this = 0,
       mc_env = \<lparr> factory_map = [''geometry'' \<mapsto> counting_factory, ''materials'' \<mapsto> counting_factory],
                  module_map = Map.empty,
                  object_map = [''geometry'' \<mapsto> [0, 1]] \<rparr>,
       objects = (\<lambda>_. \<lparr> getModuleName = ''geometry'', environment = None \<rparr>) \<rparr>"

section \<open>Properties of CylinderOnAxis\<close>

lemma dotProduct_cases:
  "dotProduct xaxis u v = u yaxis * v yaxis + u zaxis * v zaxis"
  "dotProduct yaxis u v = u xaxis * v xaxis + u zaxis * v zaxis"
  "dotProduct zaxis u v = u xaxis * v xaxis + u yaxis * v yaxis"
  by (simp_all add: dotProduct_def axes_def)

text \<open>
  C5. For every cylinder-on-axis with radius \<open>r\<close> and axis point \<open>c\<close> and every position
  \<open>p\<close>, \<open>function(p)\<close> is the sum of \<open>(p_i - c_i)\<^sup>2\<close> over the components \<open>i\<close> off the
  axis, minus \<open>r\<^sup>2\<close>.
\<close>

theorem function_formula:
  "surface_function ax cyl p =
     (\<Sum>i\<leftarrow>filter (\<lambda>i. i \<noteq> ax) axes. (p i - point cyl i)\<^sup>2) - (radius cyl)\<^sup>2"
  by (simp add: surface_function_def dotProduct_def vminus_def power2_eq_square Let_def)

text \<open>
  C2. For every position \<open>p\<close>, every unit direction \<open>d\<close> and every cylinder-on-axis, the
  coefficients that \<open>intersect\<close> hands to \<open>quadraticIntersect\<close> are \<open>a = 1 - d_axis\<^sup>2\<close>,
  \<open>k\<close> the off-axis sum of \<open>d_i * (p_i - c_i)\<close> and \<open>c = function(p)\<close>, and they satisfy
  \<open>function(p + t * d) = a * t\<^sup>2 + 2 * k * t + c\<close> for every \<open>t\<close>: the roots of the
  quadratic are the distances at which the ray meets the surface.
\<close>

theorem intersect_reduction:
  assumes unit: "dir xaxis * dir xaxis + dir yaxis * dir yaxis + dir zaxis * dir zaxis = 1"
  shows "case intersect_coeffs ax cyl p dir of (a, k, c) \<Rightarrow>
           a = 1 - (dir ax)\<^sup>2 \<and>
           k = (\<Sum>i\<leftarrow>filter (\<lambda>i. i \<noteq> ax) axes. dir i * (p i - point cyl i)) \<and>
           c = surface_function ax cyl p \<and>
           intersect qi ax cyl p dir sense = qi a k c sense \<and>
           (\<forall>t. surface_function ax cyl (vplus p (vscale t dir)) = a * t\<^sup>2 + 2 * k * t + c) \<and>
           (\<forall>t. (surface_function ax cyl (vplus p (vscale t dir)) = 0) = (a * t\<^sup>2 + 2 * k * t + c = 0))"
proof -
  have a: "1 - dir ax * dir ax = dotProduct ax dir dir"
    using unit by (cases ax) (simp_all add: dotProduct_cases)
  have id: "surface_function ax cyl (vplus p (vscale t dir)) =
        (1 - dir ax * dir ax) * t\<^sup>2 + 2 * dotProduct ax dir (vminus p (point cyl)) * t
        + (dotProduct ax (vminus p (point cyl)) (vminus p (point cyl)) - radius cyl * radius cyl)" for t
    unfolding a
    by (cases ax) (simp_all add: surface_function_def dotProduct_cases vminus_def vplus_def vscale_def
        Let_def power2_eq_square algebra_simps)
  have c: "dotProduct ax (vminus p (point cyl)) (vminus p (point cyl)) - radius cyl * radius cyl
        = surface_function ax cyl p"
    by (simp add: surface_function_def Let_def)
  have k: "dotProduct ax dir (vminus p (point cyl))
        = (\<Sum>i\<leftarrow>filter (\<lambda>i. i \<noteq> ax) axes. dir i * (p i - point cyl i))"
    by (simp add: dotProduct_def vminus_def)
  have co: "intersect_coeffs ax cyl p dir =
        (1 - dir ax * dir ax, dotProduct ax dir (vminus p (point cyl)), surface_function ax cyl p)"
    by (simp add: intersect_coeffs_def Let_def c)
  show ?thesis
    unfolding co intersect_def
    by (simp add: id c k power2_eq_square)
qed

theorem intersect_reduction_witness:
  "ray_direction xaxis * ray_direction xaxis + ray_direction yaxis * ray_direction yaxis
     + ray_direction zaxis * ray_direction zaxis = 1 \<and>
   intersect_coeffs zaxis unit_cylinder ray_origin ray_direction = (1, - 2, 3) \<and>
   surface_function zaxis unit_cylinder (vplus ray_origin (vscale 1 ray_direction))
     = 1 * 1\<^sup>2 + 2 * (- 2) * 1 + 3"
proof -
  have u: "ray_direction xaxis * ray_direction xaxis + ray_direction yaxis * ray_direction yaxis
     + ray_direction zaxis * ray_direction zaxis = 1"
    by (simp add: ray_direction_def)
  have co: "intersect_coeffs zaxis unit_cylinder ray_origin ray_direction = (1, - 2, 3)"
    by (simp add: intersect_coeffs_def dotProduct_cases vminus_def unit_cylinder_def
        ray_origin_def ray_direction_def Let_def)
  from intersect_reduction [OF u, where ax = zaxis and cyl = unit_cylinder and p = ray_origin]
  have "surface_function zaxis unit_cylinder (vplus ray_origin (vscale 1 ray_direction))
     = 1 * 1\<^sup>2 + 2 * (- 2) * 1 + 3"
    unfolding co by simp
  with u co show ?thesis by simp
qed

text \<open>
  C6. For every cylinder-on-axis and every translation vector \<open>t\<close>, \<open>transformate(t)\<close>
  returns a cylinder with the same user id, flags and radius whose axis point is the
  original point plus \<open>t\<close>; the function of the translated surface at \<open>p\<close> is the
  function of the original one at \<open>p - t\<close>.
\<close>

theorem transformate_translates:
  "user_id (transformate ax cyl t) = user_id cyl \<and>
   flags (transformate ax cyl t) = flags cyl \<and>
   radius (transformate ax cyl t) = radius cyl \<and>
   point (transformate ax cyl t) = vplus (point cyl) t \<and>
   surface_function ax (transformate ax cyl t) p = surface_function ax cyl (vminus p t)"
proof -
  have "vminus p (vplus (point cyl) t) = vminus (vminus p t) (point cyl)"
    by (simp add: vminus_def vplus_def fun_eq_iff)
  then show ?thesis
    by (simp add: transformate_def surface_function_def Let_def)
qed

text \<open>
  C9. For every cylinder-on-axis with radius \<open>r > 0\<close> and every point \<open>p\<close> on the surface
  (\<open>function(p) = 0\<close>), \<open>normal\<close> returns \<open>p\<close> minus the axis point, with the axis
  component zeroed, divided by \<open>r\<close>, and this vector has length 1.
\<close>

theorem normal_unit_length:
  assumes "0 < radius cyl" and "surface_function ax cyl p = 0"
  shows "normal ax cyl p = (\<lambda>i. if i = ax then 0 else (p i - point cyl i) / radius cyl) \<and>
         vnorm (normal ax cyl p) = 1"
proof -
  have n: "normal ax cyl p = (\<lambda>i. if i = ax then 0 else (p i - point cyl i) / radius cyl)"
    by (auto simp: normal_def vminus_def vdiv_def Let_def fun_eq_iff)
  have r: "radius cyl \<noteq> 0" using assms(1) by simp
  have s: "dotProduct ax (vminus p (point cyl)) (vminus p (point cyl)) = radius cyl * radius cyl"
    using assms(2) by (simp add: surface_function_def Let_def)
  have "(normal ax cyl p) xaxis * (normal ax cyl p) xaxis
      + (normal ax cyl p) yaxis * (normal ax cyl p) yaxis
      + (normal ax cyl p) zaxis * (normal ax cyl p) zaxis
      = dotProduct ax (vminus p (point cyl)) (vminus p (point cyl)) / (radius cyl * radius cyl)"
    unfolding n by (cases ax) (simp_all add: dotProduct_cases vminus_def add_divide_distrib)
  also have "\<dots> = 1" using r by (simp add: s)
  finally show ?thesis using n by (simp add: vnorm_def)
qed

theorem normal_unit_length_witness:
  "0 < radius unit_cylinder \<and>
   surface_function zaxis unit_cylinder ((\<lambda>_. 0)(xaxis := 1, zaxis := 5)) = 0 \<and>
   normal zaxis unit_cylinder ((\<lambda>_. 0)(xaxis := 1, zaxis := 5)) xaxis = 1 \<and>
   vnorm (normal zaxis unit_cylinder ((\<lambda>_. 0)(xaxis := 1, zaxis := 5))) = 1"
proof -
  have r: "0 < radius unit_cylinder" by (simp add: unit_cylinder_def)
  have f: "surface_function zaxis unit_cylinder ((\<lambda>_. 0)(xaxis := 1, zaxis := 5)) = 0"
    by (simp add: surface_function_def dotProduct_cases vminus_def unit_cylinder_def Let_def)
  have n: "normal zaxis unit_cylinder ((\<lambda>_. 0)(xaxis := 1, zaxis := 5)) xaxis = 1"
    by (simp add: normal_def vminus_def vdiv_def unit_cylinder_def Let_def)
  from normal_unit_length [OF r f]
  have "vnorm (normal zaxis unit_cylinder ((\<lambda>_. 0)(xaxis := 1, zaxis := 5))) = 1" ..
  with r f n show ?thesis by blast
qed

lemma fill_point_eval:
  "fst (fill_point ax coeffs axes (pt, 0)) =
     (\<lambda>i. if i = ax then pt i
          else if i = hd (filter (\<lambda>j. j \<noteq> ax) axes) then coeffs ! 1 else coeffs ! 2)"
proof
  fix i
  show "fst (fill_point ax coeffs axes (pt, 0)) i =
     (if i = ax then pt i
      else if i = hd (filter (\<lambda>j. j \<noteq> ax) axes) then coeffs ! 1 else coeffs ! 2)"
    by (cases ax; cases i) (simp_all add: axes_def numeral_2_eq_2)
qed

text \<open>
  C7, as the source has it. Constructing a cylinder-on-axis from a coefficient vector
  fails with \<open>BadSurfaceCreation\<close> exactly when the number of coefficients is not 3. With
  3 coefficients it succeeds for every radius, zero included: \<open>coeffs[0]\<close> is the radius,
  the axis component of the point is 0, and \<open>coeffs[1]\<close>, \<open>coeffs[2]\<close> are the two
  off-axis components in the order of the axes.
\<close>

theorem ctor_coefficient_count:
  "CylinderOnAxis_ctor ax surid coeffs flgs =
     (if length coeffs = 3 then
        Inr \<lparr> user_id = surid, flags = flgs, radius = coeffs ! 0,
              point = (\<lambda>i. if i = ax then 0
                          else if i = hd (filter (\<lambda>j. j \<noteq> ax) axes) then coeffs ! 1
                          else coeffs ! 2) \<rparr>
      else Inl (BadSurfaceCreation surid ''Bad number of coefficients''))"
  by (simp add: CylinderOnAxis_ctor_def fill_point_eval fun_eq_iff)

theorem ctor_coefficient_count_witness:
  "radius (projr (CylinderOnAxis_ctor zaxis ''1'' [5, 1, 2] ())) = 5 \<and>
   point (projr (CylinderOnAxis_ctor zaxis ''1'' [5, 1, 2] ())) xaxis = 1 \<and>
   point (projr (CylinderOnAxis_ctor zaxis ''1'' [5, 1, 2] ())) yaxis = 2 \<and>
   point (projr (CylinderOnAxis_ctor zaxis ''1'' [5, 1, 2] ())) zaxis = 0 \<and>
   CylinderOnAxis_ctor xaxis ''1'' [5, 1] () = Inl (BadSurfaceCreation ''1'' ''Bad number of coefficients'')"
  using ctor_coefficient_count [of zaxis "''1''" "[5, 1, 2]" "()"]
    ctor_coefficient_count [of xaxis "''1''" "[5, 1]" "()"]
  by (simp add: axes_def)

text \<open>
  C7, as the spec has it, fails: three coefficients with a zero radius are accepted, and
  the constructed cylinder has radius 0.
\<close>

theorem ctor_zero_radius_counterexample:
  "\<not> isl (CylinderOnAxis_ctor zaxis ''1'' [0, 1, 2] ()) \<and>
   radius (projr (CylinderOnAxis_ctor zaxis ''1'' [0, 1, 2] ())) = 0"
  by (simp add: CylinderOnAxis_ctor_def)

section \<open>Properties of the ITIE block\<close>

lemma int_of_size_small: "n < 2 ^ 31 \<Longrightarrow> int_of_size n = int n"
proof -
  assume a: "n < 2 ^ 31"
  have "int n < 2 ^ 31" using a by (metis of_nat_less_iff of_nat_numeral of_nat_power)
  then show ?thesis by (simp add: int_of_size_def Let_def)
qed

lemma int_of_double_of_int:
  "- (2 ^ 31) \<le> n \<Longrightarrow> n < 2 ^ 31 \<Longrightarrow> int_of_double (of_int n) = Some n"
  by (simp add: int_of_double_def Let_def)

lemma getXSS_int_at:
  "- (2 ^ 31) \<le> n \<Longrightarrow> n < 2 ^ 31 \<Longrightarrow>
   getXSS_int (pre @ of_int n # rest) (length pre) = Some (n, length pre + 1)"
  by (simp add: getXSS_int_def int_of_double_of_int)

lemma getXSS_vec_at:
  "getXSS_vec (pre @ vs @ rest) (length pre) (int (length vs)) = Some (vs, length pre + length vs)"
  by (simp add: getXSS_vec_def)

lemma dump_eq:
  "dump b out = out @ of_int (int_of_size (length (energy b))) # energy b @ sigma_in b"
  by (simp add: dump_def putXSS_int_def putXSS_vec_def Let_def)

lemma getSize_small:
  assumes "block_wf b"
  shows "getSize b = int (length (energy b) * 2 + 1)"
proof -
  have "length (energy b) * 2 + 1 < 2 ^ 31"
    using assms by (simp add: block_wf_def mult.commute)
  then show ?thesis unfolding getSize_def by (rule int_of_size_small)
qed

text \<open>
  Every block that the constructor reads from an XSS of fewer than \<open>2^31\<close> words is
  well-formed.
\<close>

lemma ctor_wf:
  assumes "ITIEBlock_ctor ITIE nxs jxs xss = Some b" and "length xss < 2 ^ 31"
  shows "block_wf b"
  using assms
  by (auto simp: ITIEBlock_ctor_def getXSS_int_def getXSS_vec_def block_wf_def
      split: if_splits option.splits prod.splits)

text \<open>
  C1. For every ITIE block with energy grid \<open>E\<close> and cross-section list \<open>S\<close> (of the same
  length \<open>L\<close>), reading back the words that \<open>dump\<close> emits (the length word, the \<open>L\<close>
  energies, the \<open>L\<close> cross-sections) gives a block with the fields \<open>E\<close> and \<open>S\<close>. The
  words may follow any words \<open>pre\<close> written before them, with the JXS pointer (counted
  from 1) at the first word of the block, and be followed by any words \<open>suf\<close>.
\<close>

theorem itie_round_trip:
  assumes wf: "block_wf b"
    and slot: "ITIE < length jxs"
    and ptr: "jxs ! ITIE = int (length pre) + 1"
  shows "ITIEBlock_ctor ITIE nxs jxs (dump b pre @ suf) = Some b"
proof -
  let ?L = "length (energy b)"
  have L: "?L < 2 ^ 31" and S: "length (sigma_in b) = ?L"
    using wf by (simp_all add: block_wf_def)
  have len: "int_of_size ?L = int ?L" using L by (rule int_of_size_small)
  have r: "- (2 ^ 31) \<le> int ?L" "int ?L < 2 ^ 31"
    using L by (simp, metis of_nat_less_iff of_nat_numeral of_nat_power)
  have x: "dump b pre @ suf = pre @ of_int (int ?L) # (energy b @ sigma_in b @ suf)"
    by (simp add: dump_eq len)
  have g1: "getXSS_int (dump b pre @ suf) (length pre) = Some (int ?L, length pre + 1)"
    unfolding x using r by (rule getXSS_int_at)
  have g2: "getXSS_vec (dump b pre @ suf) (length pre + 1) (int ?L)
            = Some (energy b, length pre + 1 + ?L)"
    using getXSS_vec_at [of "pre @ [of_int (int ?L)]" "energy b" "sigma_in b @ suf"]
    by (simp add: x)
  have g3: "getXSS_vec (dump b pre @ suf) (length pre + 1 + ?L) (int ?L)
            = Some (sigma_in b, length pre + 1 + ?L + ?L)"
    using getXSS_vec_at [of "pre @ [of_int (int ?L)] @ energy b" "sigma_in b" suf]
    by (simp add: x S)
  show ?thesis
    using g1 g2 g3 by (simp add: ITIEBlock_ctor_def slot ptr)
qed

theorem itie_round_trip_witness:
  "block_wf two_point_block \<and> 0 < length sample_jxs \<and> sample_jxs ! 0 = int (length ([] :: real list)) + 1 \<and>
   dump two_point_block [] = [2, 1, 2, 3, 4] \<and>
   ITIEBlock_ctor 0 [] sample_jxs (dump two_point_block [] @ []) = Some two_point_block"
proof -
  have wf: "block_wf two_point_block" by (simp add: block_wf_def two_point_block_def)
  have sl: "0 < length sample_jxs" by (simp add: sample_jxs_def)
  have pt: "sample_jxs ! 0 = int (length ([] :: real list)) + 1" by (simp add: sample_jxs_def)
  have d: "dump two_point_block [] = [2, 1, 2, 3, 4]"
    by (simp add: dump_eq two_point_block_def int_of_size_def)
  from wf sl pt d itie_round_trip [OF wf sl pt, of "[]" "[]"] show ?thesis by simp
qed

text \<open>
  C3. For every ITIE block whose energy grid has \<open>L\<close> entries, \<open>getSize()\<close> returns
  \<open>2L + 1\<close>, and this is the number of words that \<open>dump\<close> appends.
\<close>

theorem getSize_words:
  assumes wf: "block_wf b"
  shows "getSize b = 2 * int (length (energy b)) + 1 \<and>
         int (length (dump b out)) = int (length out) + getSize b"
proof -
  have g: "getSize b = int (length (energy b) * 2 + 1)" using wf by (rule getSize_small)
  have S: "length (sigma_in b) = length (energy b)" using wf by (simp add: block_wf_def)
  show ?thesis by (simp add: g dump_eq S)
qed

theorem getSize_words_witness:
  "block_wf two_point_block \<and> getSize two_point_block = 5 \<and>
   int (length (dump two_point_block [7, 8])) = 2 + 5"
proof -
  have wf: "block_wf two_point_block" by (simp add: block_wf_def two_point_block_def)
  from getSize_words [OF wf, of "[7, 8]"] wf show ?thesis
    by (simp add: two_point_block_def)
qed

lemma shift_loop_length: "length (shift_loop old slot sz js new) = length new"
  by (induction js arbitrary: new) simp_all

lemma shift_loop_nth:
  "distinct js \<Longrightarrow> j < length new \<Longrightarrow>
   shift_loop old slot sz js new ! j =
     (if j \<in> set js \<and> old ! j > old ! slot then new ! j + sz else new ! j)"
proof (induction js arbitrary: new)
  case Nil
  then show ?case by simp
next
  case (Cons i js)
  then show ?case by (cases "i = j") auto
qed

text \<open>
  C4. For every pair of JXS arrays, \<open>updatePointers\<close> adds the size \<open>2L + 1\<close> of the block
  to the entries \<open>JXS_new[j]\<close> with \<open>JXS_old[j] > JXS_old[ITIE]\<close> and leaves every other
  entry of \<open>JXS_new\<close> as it was.
\<close>

theorem updatePointers_shift:
  assumes wf: "block_wf b"
    and lo: "length jxs_old = jxs_size" and ln: "length jxs_new = jxs_size"
    and slot: "ITIE < jxs_size"
  shows "length (updatePointers ITIE b nxs jxs_old jxs_new) = jxs_size \<and>
         (\<forall>j < jxs_size. updatePointers ITIE b nxs jxs_old jxs_new ! j =
            (if jxs_old ! j > jxs_old ! ITIE
             then jxs_new ! j + (2 * int (length (energy b)) + 1)
             else jxs_new ! j))"
proof -
  have g: "getSize b = int (length (energy b) * 2 + 1)" using wf by (rule getSize_small)
  show ?thesis
    by (simp add: updatePointers_def shiftJXSArray_def shift_loop_length shift_loop_nth ln g)
qed

theorem updatePointers_shift_witness:
  "block_wf two_point_block \<and> length sample_jxs = jxs_size \<and> 0 < jxs_size \<and>
   updatePointers 0 two_point_block [] sample_jxs sample_jxs ! 0 = 1 \<and>
   updatePointers 0 two_point_block [] sample_jxs sample_jxs ! 1 = 11 \<and>
   updatePointers 0 two_point_block [] sample_jxs sample_jxs ! 2 = 0"
proof -
  have wf: "block_wf two_point_block" by (simp add: block_wf_def two_point_block_def)
  have l: "length sample_jxs = jxs_size" by (simp add: sample_jxs_def jxs_size_def)
  have s: "0 < jxs_size" by (simp add: jxs_size_def)
  from updatePointers_shift [OF wf l l s, of "[]"]
  have a: "\<forall>j < jxs_size. updatePointers 0 two_point_block [] sample_jxs sample_jxs ! j =
            (if sample_jxs ! j > sample_jxs ! 0
             then sample_jxs ! j + (2 * int (length (energy two_point_block)) + 1)
             else sample_jxs ! j)"
    by simp
  have "0 < jxs_size" "1 < jxs_size" "2 < jxs_size" by (simp_all add: jxs_size_def)
  with a have
    "updatePointers 0 two_point_block [] sample_jxs sample_jxs ! 0 = 1"
    "updatePointers 0 two_point_block [] sample_jxs sample_jxs ! 1 = 11"
    "updatePointers 0 two_point_block [] sample_jxs sample_jxs ! 2 = 0"
    by (simp_all add: sample_jxs_def two_point_block_def)
  with wf l s show ?thesis by simp
qed

section \<open>Properties of McEnvironment\<close>

text \<open>
  C8. Setting up a module fails with \<open>MissingFactory\<close> when no factory is registered under
  its name. With a factory and no objects staged under the name, the set-up returns and
  the state (the module map with it) is as before. With a factory and staged objects,
  the factory is called on the staged objects, and the module it returns is stored in
  the module map under the name.
\<close>

theorem setupModule_cases:
  "(factory_map (mc_env s) mname = None \<longrightarrow> setupModule mname s = Inl (MissingFactory mname)) \<and>
   (factory_map (mc_env s) mname = Some factory \<and> object_map (mc_env s) mname = None \<longrightarrow>
      setupModule mname s = Inr s) \<and>
   (factory_map (mc_env s) mname = Some factory \<and> object_map (mc_env s) mname = Some definitions \<and>
    factory definitions (objects s) = Inr md \<longrightarrow>
      setupModule mname s =
        Inr (s\<lparr> mc_env := (mc_env s)\<lparr> module_map := (module_map (mc_env s))(mname \<mapsto> md) \<rparr> \<rparr>))"
  by (simp add: setupModule_def)

theorem setupModule_cases_witness:
  "factory_map (mc_env sample_state) ''source'' = None \<and>
   setupModule ''source'' sample_state = Inl (MissingFactory ''source'') \<and>
   factory_map (mc_env sample_state) ''materials'' = Some counting_factory \<and>
   object_map (mc_env sample_state) ''materials'' = None \<and>
   setupModule ''materials'' sample_state = Inr sample_state \<and>
   factory_map (mc_env sample_state) ''geometry'' = Some counting_factory \<and>
   object_map (mc_env sample_state) ''geometry'' = Some [0, 1] \<and>
   counting_factory [0, 1] (objects sample_state) = Inr 2 \<and>
   setupModule ''geometry'' sample_state =
     Inr (sample_state\<lparr> mc_env := (mc_env sample_state)\<lparr> module_map := [''geometry'' \<mapsto> 2] \<rparr> \<rparr>)"
proof -
  have h1: "factory_map (mc_env sample_state) ''source'' = None"
    by (simp add: sample_state_def)
  have h2: "factory_map (mc_env sample_state) ''materials'' = Some counting_factory"
    "object_map (mc_env sample_state) ''materials'' = None"
    by (simp_all add: sample_state_def)
  have h3: "factory_map (mc_env sample_state) ''geometry'' = Some counting_factory"
    "object_map (mc_env sample_state) ''geometry'' = Some [0, 1]"
    "counting_factory [0, 1] (objects sample_state) = Inr 2"
    by (simp_all add: sample_state_def counting_factory_def)
  have m: "module_map (mc_env sample_state) = Map.empty"
    by (simp add: sample_state_def)
  from setupModule_cases [of sample_state "''source''"] h1
  have r1: "setupModule ''source'' sample_state = Inl (MissingFactory ''source'')"
    by simp
  from setupModule_cases [of sample_state "''materials''" counting_factory] h2
  have r2: "setupModule ''materials'' sample_state = Inr sample_state"
    by simp
  from setupModule_cases [of sample_state "''geometry''" counting_factory "[0, 1]" 2] h3
  have r3: "setupModule ''geometry'' sample_state =
     Inr (sample_state\<lparr> mc_env := (mc_env sample_state)\<lparr> module_map := [''geometry'' \<mapsto> 2] \<rparr> \<rparr>)"
    by (simp add: m)
  from h1 h2 h3 r1 r2 r3 show ?thesis by simp
qed

lemma collect_definitions_frame:
  "collect_definitions mname us (ds, s) = (ds', s') \<Longrightarrow>
     mc_env s' = mc_env s \<and> this s' = this s"
proof (induction us arbitrary: ds s)
  case Nil
  then show ?case by simp
next
  case (Cons obj rest)
  show ?case
  proof (cases "getModuleName (objects s obj) = mname")
    case True
    with Cons.prems
    have "collect_definitions mname rest (ds @ [obj], setEnvironment obj (this s) s) = (ds', s')"
      by simp
    from Cons.IH [OF this] show ?thesis by (simp add: setEnvironment_def)
  next
    case False
    with Cons.prems have "collect_definitions mname rest (ds, s) = (ds', s')" by simp
    from Cons.IH [OF this] show ?thesis .
  qed
qed

text \<open>
  The loop collects the definitions whose module name matches, in order, and changes no
  module name. Without a factory, and without a matching definition, \<open>createModule\<close>
  throws and the state is as before.
\<close>

lemma collect_definitions_result:
  "collect_definitions mname us (ds, s) = (ds', s') \<Longrightarrow>
     ds' = ds @ filter (\<lambda>obj. getModuleName (objects s obj) = mname) us \<and>
     (\<forall>obj. getModuleName (objects s' obj) = getModuleName (objects s obj))"
proof (induction us arbitrary: ds s)
  case Nil
  then show ?case by simp
next
  case (Cons obj rest)
  show ?case
  proof (cases "getModuleName (objects s obj) = mname")
    case True
    let ?s = "setEnvironment obj (this s) s"
    have n: "getModuleName (objects ?s x) = getModuleName (objects s x)" for x
      by (simp add: setEnvironment_def)
    from True Cons.prems
    have "collect_definitions mname rest (ds @ [obj], ?s) = (ds', s')"
      by simp
    from Cons.IH [OF this] show ?thesis using True by (simp add: n)
  next
    case False
    with Cons.prems have "collect_definitions mname rest (ds, s) = (ds', s')" by simp
    from Cons.IH [OF this] show ?thesis using False by simp
  qed
qed

lemma createModule_no_factory:
  "factory_map (mc_env s) mname = None \<Longrightarrow>
   createModule mname dynamic_cast user_definitions s = (Inl (MissingFactory mname), s)"
  by (simp add: createModule_def)

lemma createModule_no_definition:
  assumes "factory_map (mc_env s) mname = Some factory"
    and "filter (\<lambda>obj. getModuleName (objects s obj) = mname) user_definitions = []"
  shows "createModule mname dynamic_cast user_definitions s =
     (Inl (GeneralError (''Cannot create module *'' @ mname @ ''*. '' @
        ''The objects supplied by the user does not contain information about that module'')), s)"
proof -
  have "collect_definitions mname us (ds, s) = (ds, s)"
    if "filter (\<lambda>obj. getModuleName (objects s obj) = mname) us = []" for us ds
    using that by (induction us) (simp_all split: if_splits)
  from this [OF assms(2)] show ?thesis
    by (simp add: createModule_def assms(1))
qed

text \<open>
  C10. \<open>createModule\<close> leaves the factory map, the module map and the object map of the
  environment as they were, for every vector of definitions and every outcome (a
  module, or an exception for a missing factory or for no matching definition): the
  module it creates is not loaded into the environment.
\<close>

theorem createModule_frame:
  "factory_map (mc_env (snd (createModule mname dynamic_cast user_definitions s))) = factory_map (mc_env s) \<and>
   module_map (mc_env (snd (createModule mname dynamic_cast user_definitions s))) = module_map (mc_env s) \<and>
   object_map (mc_env (snd (createModule mname dynamic_cast user_definitions s))) = object_map (mc_env s)"
proof -
  obtain ds s' where c: "collect_definitions mname user_definitions ([], s) = (ds, s')"
    by (cases "collect_definitions mname user_definitions ([], s)")
  from collect_definitions_frame [OF c] have e: "mc_env s' = mc_env s" by simp
  have "mc_env (snd (createModule mname dynamic_cast user_definitions s)) = mc_env s"
    by (simp add: createModule_def c e split: option.split sum.split)
  then show ?thesis by simp
qed

theorem createModule_frame_witness:
  "fst (createModule ''geometry'' Some [0, 1] sample_state) = Inr (Some 2) \<and>
   environment (objects (snd (createModule ''geometry'' Some [0, 1] sample_state)) 0) = Some 0 \<and>
   module_map (mc_env (snd (createModule ''geometry'' Some [0, 1] sample_state))) = Map.empty \<and>
   fst (createModule ''source'' Some [0, 1] sample_state) = Inl (MissingFactory ''source'') \<and>
   module_map (mc_env (snd (createModule ''source'' Some [0, 1] sample_state))) = Map.empty"
proof -
  have m: "module_map (mc_env sample_state) = Map.empty"
    by (simp add: sample_state_def)
  have r: "fst (createModule ''geometry'' Some [0, 1] sample_state) = Inr (Some 2)"
    "environment (objects (snd (createModule ''geometry'' Some [0, 1] sample_state)) 0) = Some 0"
    "fst (createModule ''source'' Some [0, 1] sample_state) = Inl (MissingFactory ''source'')"
    by (simp_all add: createModule_def sample_state_def setEnvironment_def counting_factory_def)
  from createModule_frame [of "''geometry''" Some "[0, 1]" sample_state]
    createModule_frame [of "''source''" Some "[0, 1]" sample_state] m r
  show ?thesis by simp
qed

end
